theory Spec2Isabelle
  imports Complex_Main "HOL-Library.Product_Lexorder"
begin

section \<open>verify\_logs.py: a checker for the chronological order of log lines\<close>

text \<open>
  The program reads a text file line by line, takes the timestamp at the start of each
  line, compares it with the previous one, and counts the lines on which time went
  backwards. Before that, the script's entry block picks the file: the path given on the
  command line, or the most recently created file among those named \<open>path.*\<close>.

  A character is an 8-bit code point. In that range Python's \<open>\d\<close> matches the ten
  ASCII digits only. A file is the list of the lines that iterating it yields (each with
  its line terminator, when it has one).
\<close>

subsection \<open>Timestamps\<close>

text \<open>
  A \<open>datetime\<close> as \<open>strptime\<close> builds it from \<open>%Y-%m-%d %H:%M:%S\<close>: no time zone, and
  the microsecond is always 0 and is left out. Python compares two such values field by
  field, from the year down to the second.
\<close>

record datetime =
  year :: nat
  month :: nat
  day :: nat
  hour :: nat
  minute :: nat
  second :: nat

definition dt_tuple :: "datetime \<Rightarrow> nat \<times> nat \<times> nat \<times> nat \<times> nat \<times> nat" where
  "dt_tuple d = (year d, month d, day d, hour d, minute d, second d)"

definition dt_less :: "datetime \<Rightarrow> datetime \<Rightarrow> bool" where
  "dt_less a b = (dt_tuple a < dt_tuple b)"

definition dt_le :: "datetime \<Rightarrow> datetime \<Rightarrow> bool" where
  "dt_le a b = (dt_tuple a \<le> dt_tuple b)"

subsection \<open>The regular expression\<close>

text \<open>
  \<^verbatim>\<open>timestamp_pattern = re.compile(r'^(\d{4}-\d{2}-\d{2} \d{2}:\d{2}:\d{2})')\<close>

  The pattern is a sequence of nineteen single-character items, each a digit class or a
  literal. \<open>pattern.match(line)\<close> matches at the start of the line only and group 1 is
  the matched text.
\<close>

datatype char_class = Digit | Lit char

definition is_digit :: "char \<Rightarrow> bool" where
  "is_digit c = (c \<in> set ''0123456789'')"

fun accepts :: "char_class \<Rightarrow> char \<Rightarrow> bool" where
  "accepts Digit c = is_digit c"
| "accepts (Lit l) c = (c = l)"

definition timestamp_pattern :: "char_class list" where
  "timestamp_pattern =
     [Digit, Digit, Digit, Digit, Lit CHR ''-'', Digit, Digit, Lit CHR ''-'', Digit, Digit,
      Lit CHR '' '',
      Digit, Digit, Lit CHR '':'', Digit, Digit, Lit CHR '':'', Digit, Digit]"

fun re_match :: "char_class list \<Rightarrow> string \<Rightarrow> string option" where
  "re_match [] s = Some []"
| "re_match (p # ps) [] = None"
| "re_match (p # ps) (c # cs) =
     (if accepts p c then map_option ((#) c) (re_match ps cs) else None)"

subsection \<open>Parsing the matched text\<close>

text \<open>
  \<^verbatim>\<open>datetime.strptime(dt_str, "%Y-%m-%d %H:%M:%S")\<close> on a text of the pattern's shape,
  the only texts the program passes to it (lemma \<open>re_match_shape\<close> below); on any other text
  the model answers \<open>FormatMismatch\<close>. Every failure is a \<open>ValueError\<close>:
  \<^item> \<open>FormatMismatch\<close> ("time data ... does not match format ..."): the month is not
    01..12, the day not 01..31, the hour not 00..23 or the minute not 00..59;
  \<^item> \<open>UnconvertedData\<close> ("unconverted data remains"): the second is above 61;
  \<^item> \<open>YearOutOfRange\<close>: the year is 0000;
  \<^item> \<open>DayOutOfRange\<close>: the month has fewer days;
  \<^item> \<open>SecondOutOfRange\<close>: the second is 60 or 61, which the format accepts and the
    \<open>datetime\<close> constructor refuses.
\<close>

datatype value_error =
  FormatMismatch | UnconvertedData | YearOutOfRange | DayOutOfRange | SecondOutOfRange

definition digit_val :: "char \<Rightarrow> nat" where
  "digit_val c = of_char c - 48"

definition number :: "string \<Rightarrow> nat" where
  "number s = foldl (\<lambda>n c. 10 * n + digit_val c) 0 s"

definition is_leap :: "nat \<Rightarrow> bool" where
  "is_leap y = (y mod 4 = 0 \<and> (y mod 100 \<noteq> 0 \<or> y mod 400 = 0))"

definition days_in_month :: "nat \<Rightarrow> nat \<Rightarrow> nat" where
  "days_in_month y m =
     (if m = 2 then (if is_leap y then 29 else 28)
      else if m \<in> {4, 6, 9, 11} then 30 else 31)"

definition strptime :: "string \<Rightarrow> value_error + datetime" where
  "strptime s =
     (if re_match timestamp_pattern s \<noteq> Some s then Inl FormatMismatch
      else
        let y = number (take 4 s);
            mo = number (take 2 (drop 5 s));
            d = number (take 2 (drop 8 s));
            h = number (take 2 (drop 11 s));
            mi = number (take 2 (drop 14 s));
            sec = number (take 2 (drop 17 s))
        in if mo < 1 \<or> 12 < mo \<or> d < 1 \<or> 31 < d \<or> 23 < h \<or> 59 < mi
             then Inl FormatMismatch
           else if 61 < sec then Inl UnconvertedData
           else if y < 1 then Inl YearOutOfRange
           else if days_in_month y mo < d then Inl DayOutOfRange
           else if 59 < sec then Inl SecondOutOfRange
           else Inr \<lparr>year = y, month = mo, day = d, hour = h, minute = mi, second = sec\<rparr>)"

subsection \<open>Console output and the scan\<close>

text \<open>
  One constructor for each \<open>print\<close> of the program, with the values it interpolates:
  \<^item> \<open>Checking f\<close>: "Checking f..."
  \<^item> \<open>TimeWentBackwards n last cur\<close>: "Error at line n: Time went backwards! last -> cur"
  \<^item> \<open>LineText t\<close>: "Line: t"
  \<^item> \<open>ParseError n e\<close>: "Parse error line n: e"
  \<^item> \<open>Success\<close>: "SUCCESS: Logs are in chronological order."
  \<^item> \<open>Failed k\<close>: "FAILED: Found k ordering errors."
  \<^item> \<open>Usage\<close>: "Usage: verify\_logs.py <logfile>"
  \<^item> \<open>Targeting t\<close>: "Targeting latest log file: t"
  \<^item> \<open>CouldNotFind t\<close>: "Could not find log file t"
\<close>

datatype message =
    Checking string
  | TimeWentBackwards nat datetime datetime
  | LineText string
  | ParseError nat value_error
  | Success
  | Failed nat
  | Usage
  | Targeting string
  | CouldNotFind string

text \<open>\<open>line.strip()\<close>: the line without the white space at its two ends.\<close>

definition is_space :: "char \<Rightarrow> bool" where
  "is_space c = (of_char c \<in> {9, 10, 11, 12, 13, 28, 29, 30, 31, 32, 133, 160 :: nat})"

definition strip :: "string \<Rightarrow> string" where
  "strip s = rev (dropWhile is_space (rev (dropWhile is_space s)))"

text \<open>\<open>sub in line\<close>: the substring test of the content heuristic.\<close>

fun starts_with :: "string \<Rightarrow> string \<Rightarrow> bool" where
  "starts_with [] s = True"
| "starts_with (p # ps) [] = False"
| "starts_with (p # ps) (c # cs) = (p = c \<and> starts_with ps cs)"

fun contains :: "string \<Rightarrow> string \<Rightarrow> bool" where
  "contains sub [] = (sub = [])"
| "contains sub (c # cs) = (starts_with sub (c # cs) \<or> contains sub cs)"

text \<open>The local variables of \<open>check_log_order\<close>, and what it has printed so far.\<close>

record scan_state =
  last_dt :: "datetime option"
  line_num :: nat
  errors :: nat
  out :: "message list"

definition init_state :: "string \<Rightarrow> scan_state" where
  "init_state filename =
     \<lparr>last_dt = None, line_num = 0, errors = 0, out = [Checking filename]\<rparr>"

text \<open>
  Lines 19 to 32, the timestamp branch of the loop body. A \<open>datetime\<close> is always true
  in a condition, so \<open>last_dt and current_dt < last_dt\<close> tests that \<open>last_dt\<close> is not
  \<open>None\<close> and then compares.
\<close>

definition check_timestamp :: "scan_state \<Rightarrow> string \<Rightarrow> scan_state" where
  "check_timestamp st line =
     (case re_match timestamp_pattern line of
        None \<Rightarrow> st
      | Some dt_str \<Rightarrow>
          (case strptime dt_str of
             Inr current_dt \<Rightarrow>
               (let st' =
                  (case last_dt st of
                     None \<Rightarrow> st
                   | Some l \<Rightarrow>
                       if dt_less current_dt l
                       then st\<lparr>errors := errors st + 1,
                               out := out st @ [TimeWentBackwards (line_num st) l current_dt,
                                                LineText (strip line)]\<rparr>
                       else st)
                in st'\<lparr>last_dt := Some current_dt\<rparr>)
           | Inl e \<Rightarrow> st\<lparr>out := out st @ [ParseError (line_num st) e]\<rparr>))"

text \<open>Lines 35 to 37, the content heuristic: its body is \<open>pass\<close>.\<close>

definition content_heuristic :: "scan_state \<Rightarrow> string \<Rightarrow> scan_state" where
  "content_heuristic st line =
     (if \<not> contains ''load test'' line \<and> \<not> contains ''Thread'' line then st else st)"

definition process_line :: "scan_state \<Rightarrow> string \<Rightarrow> scan_state" where
  "process_line st line =
     content_heuristic (check_timestamp (st\<lparr>line_num := line_num st + 1\<rparr>) line) line"

fun scan :: "scan_state \<Rightarrow> string list \<Rightarrow> scan_state" where
  "scan st [] = st"
| "scan st (line # rest) = scan (process_line st line) rest"

subsection \<open>The operating system\<close>

text \<open>
  What the program asks of the operating system, as the answers it gets:
  \<open>stat\<close> for \<open>os.stat\<close> (which \<open>os.path.exists\<close> and \<open>os.path.getctime\<close> call),
  \<open>glob\<close> for \<open>glob.glob\<close>, with the list in the order it is returned, and \<open>open_text\<close>
  for opening a file in text mode and reading its lines. The creation time is a float;
  only its order is used, so it is a rational here.
\<close>

datatype os_error = FileNotFoundError | IsADirectoryError | PermissionError

datatype file_kind = RegularFile | Directory | OtherKind

record stat_result =
  st_kind :: file_kind
  st_ctime :: rat

record os_env =
  stat :: "string \<Rightarrow> os_error + stat_result"
  glob :: "string \<Rightarrow> string list"
  open_text :: "string \<Rightarrow> os_error + string list"

text \<open>\<open>os.path.exists\<close> is false whenever \<open>os.stat\<close> raises.\<close>

definition os_path_exists :: "os_env \<Rightarrow> string \<Rightarrow> bool" where
  "os_path_exists env p = (case stat env p of Inl e \<Rightarrow> False | Inr r \<Rightarrow> True)"

definition os_path_getctime :: "os_env \<Rightarrow> string \<Rightarrow> os_error + rat" where
  "os_path_getctime env p = (case stat env p of Inl e \<Rightarrow> Inl e | Inr r \<Rightarrow> Inr (st_ctime r))"

text \<open>
  How a run ends: \<open>sys.exit(n)\<close>, or an exception nobody catches, after which the
  interpreter prints a traceback and the exit status is 1.
\<close>

datatype outcome = Exit int | Uncaught os_error

fun exit_status :: "outcome \<Rightarrow> int" where
  "exit_status (Exit n) = n"
| "exit_status (Uncaught e) = 1"

definition check_log_order :: "os_env \<Rightarrow> string \<Rightarrow> message list \<times> outcome" where
  "check_log_order env filename =
     (case open_text env filename of
        Inl e \<Rightarrow> ([Checking filename], Uncaught e)
      | Inr lines \<Rightarrow>
          (let st = scan (init_state filename) lines
           in if errors st = 0 then (out st @ [Success], Exit 0)
              else (out st @ [Failed (errors st)], Exit 1)))"

text \<open>
  \<open>max(candidates, key=os.path.getctime)\<close>: the key of each candidate is computed in
  turn, and a candidate replaces the best one so far only when its key is greater, so
  among equal keys the first wins.
\<close>

fun max_loop :: "os_env \<Rightarrow> string \<Rightarrow> rat \<Rightarrow> string list \<Rightarrow> os_error + string" where
  "max_loop env best bkey [] = Inr best"
| "max_loop env best bkey (c # cs) =
     (case os_path_getctime env c of
        Inl e \<Rightarrow> Inl e
      | Inr k \<Rightarrow> if bkey < k then max_loop env c k cs else max_loop env best bkey cs)"

definition max_getctime :: "os_env \<Rightarrow> string \<Rightarrow> string list \<Rightarrow> os_error + string" where
  "max_getctime env c cs =
     (case os_path_getctime env c of Inl e \<Rightarrow> Inl e | Inr k \<Rightarrow> max_loop env c k cs)"

text \<open>
  Lines 56 to 65: the file to scan (\<open>Inr\<close>), or the end of the run (\<open>Inl\<close>), with what
  was printed.
\<close>

definition resolve_target :: "os_env \<Rightarrow> string \<Rightarrow> message list \<times> (outcome + string)" where
  "resolve_target env target =
     (if \<not> os_path_exists env target then
        (case glob env (target @ ''.*'') of
           [] \<Rightarrow> ([CouldNotFind target], Inl (Exit 1))
         | c # cs \<Rightarrow>
             (case max_getctime env c cs of
                Inl e \<Rightarrow> ([], Inl (Uncaught e))
              | Inr t \<Rightarrow> ([Targeting t], Inr t)))
      else ([], Inr target))"

definition main :: "os_env \<Rightarrow> string list \<Rightarrow> message list \<times> outcome" where
  "main env argv =
     (if length argv < 2 then ([Usage], Exit 1)
      else
        (case resolve_target env (argv ! 1) of
           (msgs, Inl oc) \<Rightarrow> (msgs, oc)
         | (msgs, Inr target) \<Rightarrow>
             (msgs @ fst (check_log_order env target), snd (check_log_order env target))))"

subsection \<open>The program without the content heuristic\<close>

text \<open>
  The same program with lines 35 to 37 removed, for comparison with the one above.
\<close>

definition process_line_no_heuristic :: "scan_state \<Rightarrow> string \<Rightarrow> scan_state" where
  "process_line_no_heuristic st line = check_timestamp (st\<lparr>line_num := line_num st + 1\<rparr>) line"

fun scan_no_heuristic :: "scan_state \<Rightarrow> string list \<Rightarrow> scan_state" where
  "scan_no_heuristic st [] = st"
| "scan_no_heuristic st (line # rest) = scan_no_heuristic (process_line_no_heuristic st line) rest"

definition check_log_order_no_heuristic :: "os_env \<Rightarrow> string \<Rightarrow> message list \<times> outcome" where
  "check_log_order_no_heuristic env filename =
     (case open_text env filename of
        Inl e \<Rightarrow> ([Checking filename], Uncaught e)
      | Inr lines \<Rightarrow>
          (let st = scan_no_heuristic (init_state filename) lines
           in if errors st = 0 then (out st @ [Success], Exit 0)
              else (out st @ [Failed (errors st)], Exit 1)))"

definition main_no_heuristic :: "os_env \<Rightarrow> string list \<Rightarrow> message list \<times> outcome" where
  "main_no_heuristic env argv =
     (if length argv < 2 then ([Usage], Exit 1)
      else
        (case resolve_target env (argv ! 1) of
           (msgs, Inl oc) \<Rightarrow> (msgs, oc)
         | (msgs, Inr target) \<Rightarrow>
             (msgs @ fst (check_log_order_no_heuristic env target),
              snd (check_log_order_no_heuristic env target))))"

subsection \<open>Notions of the specification\<close>

text \<open>
  A line begins with a timestamp when its first nineteen characters have the shape
  \<open>YYYY-MM-DD HH:MM:SS\<close>.
\<close>

definition has_leading_timestamp :: "string \<Rightarrow> bool" where
  "has_leading_timestamp line =
     list_all2 accepts timestamp_pattern (take (length timestamp_pattern) line)"

text \<open>
  The timestamp of a line, when the line begins with one and it parses; the timestamps
  of a file, in the order of its lines.
\<close>

definition parse_line :: "string \<Rightarrow> datetime option" where
  "parse_line line =
     (case re_match timestamp_pattern line of
        None \<Rightarrow> None
      | Some dt_str \<Rightarrow> (case strptime dt_str of Inl e \<Rightarrow> None | Inr d \<Rightarrow> Some d))"

definition parsed_timestamps :: "string list \<Rightarrow> datetime list" where
  "parsed_timestamps lines = List.map_filter parse_line lines"

text \<open>
  The number of timestamps that are strictly earlier than the one just before them.
\<close>

definition backward_steps :: "datetime list \<Rightarrow> nat" where
  "backward_steps ts = length (filter (\<lambda>(prev, cur). dt_less cur prev) (zip ts (tl ts)))"

definition with_last :: "datetime option \<Rightarrow> datetime list \<Rightarrow> datetime list" where
  "with_last l ts = (case l of None \<Rightarrow> ts | Some d \<Rightarrow> d # ts)"

fun is_violation :: "message \<Rightarrow> bool" where
  "is_violation (TimeWentBackwards n l c) = True"
| "is_violation m = False"

text \<open>A path that exists as a regular file (\<open>os.path.isfile\<close>).\<close>

definition is_regular_file :: "os_env \<Rightarrow> string \<Rightarrow> bool" where
  "is_regular_file env p =
     (case stat env p of Inl e \<Rightarrow> False | Inr r \<Rightarrow> st_kind r = RegularFile)"

subsection \<open>Example inputs\<close>

definition mk_datetime :: "nat \<Rightarrow> nat \<Rightarrow> nat \<Rightarrow> nat \<Rightarrow> nat \<Rightarrow> nat \<Rightarrow> datetime" where
  "mk_datetime y mo d h mi s =
     \<lparr>year = y, month = mo, day = d, hour = h, minute = mi, second = s\<rparr>"

definition nl :: string where
  "nl = [CHR 0x0A]"

text \<open>The three lines of the specification's example.\<close>

definition example_lines :: "string list" where
  "example_lines =
     [''2025-01-28 09:03:08 Thread-1 load test start'' @ nl,
      ''2025-01-28 09:03:10 Thread-2 load test continue'' @ nl,
      ''2025-01-28 09:03:05 Thread-3 load test anomaly'' @ nl]"

text \<open>The same timestamps on lines without the words the heuristic looks for.\<close>

definition plain_lines :: "string list" where
  "plain_lines =
     [''2025-01-28 09:03:08 worker 1 started'' @ nl,
      ''2025-01-28 09:03:10 worker 2 running'' @ nl,
      ''2025-01-28 09:03:05 worker 3 anomaly'' @ nl]"

definition ordered_lines :: "string list" where
  "ordered_lines =
     [''2025-01-28 09:03:08 Thread-1 load test start'' @ nl,
      ''    at worker.c:42'' @ nl,
      ''2025-01-28 09:03:08 Thread-2 load test continue'' @ nl,
      ''2025-01-29 00:00:00 Thread-1 load test end'' @ nl]"


text \<open>A directory holding one regular file, \<open>name\<close>, with the given lines.\<close>

definition log_env :: "string \<Rightarrow> string list \<Rightarrow> os_env" where
  "log_env name lines =
     \<lparr>stat = (\<lambda>p. if p = name then Inr \<lparr>st_kind = RegularFile, st_ctime = 0\<rparr>
                   else Inl FileNotFoundError),
      glob = (\<lambda>pat. []),
      open_text = (\<lambda>p. if p = name then Inr lines else Inl FileNotFoundError)\<rparr>"

text \<open>Two rotated logs and no file of the plain name.\<close>

definition rotated_env :: os_env where
  "rotated_env =
     \<lparr>stat = (\<lambda>p. if p = ''stress_test_log.1700000000''
                     then Inr \<lparr>st_kind = RegularFile, st_ctime = 1700000000\<rparr>
                   else if p = ''stress_test_log.1700000500''
                     then Inr \<lparr>st_kind = RegularFile, st_ctime = 1700000500\<rparr>
                   else Inl FileNotFoundError),
      glob = (\<lambda>pat. if pat = ''stress_test_log.*''
                     then [''stress_test_log.1700000000'', ''stress_test_log.1700000500'']
                     else []),
      open_text = (\<lambda>p. if p = ''stress_test_log.1700000000'' then Inr example_lines
                        else if p = ''stress_test_log.1700000500'' then Inr ordered_lines
                        else Inl FileNotFoundError)\<rparr>"

text \<open>A directory \<open>logs\<close> beside a regular file \<open>logs.1\<close>.\<close>

definition dir_env :: os_env where
  "dir_env =
     \<lparr>stat = (\<lambda>p. if p = ''logs'' then Inr \<lparr>st_kind = Directory, st_ctime = 5\<rparr>
                   else if p = ''logs.1'' then Inr \<lparr>st_kind = RegularFile, st_ctime = 7\<rparr>
                   else Inl FileNotFoundError),
      glob = (\<lambda>pat. if pat = ''logs.*'' then [''logs.1''] else []),
      open_text = (\<lambda>p. if p = ''logs'' then Inl IsADirectoryError
                        else if p = ''logs.1'' then Inr ordered_lines
                        else Inl FileNotFoundError)\<rparr>"

section \<open>Properties\<close>

subsection \<open>Auxiliary facts\<close>

lemmas eval_defs =
  timestamp_pattern_def is_digit_def strptime_def number_def digit_val_def days_in_month_def
  is_leap_def parse_line_def parsed_timestamps_def dt_le_def dt_less_def
  dt_tuple_def check_timestamp_def process_line_def init_state_def strip_def is_space_def
  nl_def log_env_def os_path_exists_def check_log_order_def has_leading_timestamp_def
  mk_datetime_def

lemma content_heuristic_id: "content_heuristic st line = st"
  by (simp add: content_heuristic_def)

lemma not_dt_less_iff: "(\<not> dt_less b a) = dt_le a b"
  by (simp add: dt_less_def dt_le_def not_less)

lemma re_match_take:
  "re_match p line =
     (if list_all2 accepts p (take (length p) line) then Some (take (length p) line) else None)"
proof (induction p line rule: re_match.induct)
  case (1 s)
  show ?case by simp
next
  case (2 p ps)
  show ?case by simp
next
  case (3 p ps c cs)
  then show ?case by simp
qed

lemma re_match_timestamp:
  "re_match timestamp_pattern line =
     (if has_leading_timestamp line then Some (take 19 line) else None)"
proof -
  have "length timestamp_pattern = 19"
    by (simp add: timestamp_pattern_def)
  then show ?thesis
    using re_match_take[of timestamp_pattern line] by (simp add: has_leading_timestamp_def)
qed

lemma re_match_shape:
  assumes "re_match timestamp_pattern line = Some s"
  shows "re_match timestamp_pattern s = Some s"
proof -
  have len: "length timestamp_pattern = 19"
    by (simp add: timestamp_pattern_def)
  from assms have a: "list_all2 accepts timestamp_pattern (take 19 line)"
    and s: "s = take 19 line"
    using re_match_take[of timestamp_pattern line] by (simp_all add: len split: if_splits)
  from a have "length (take 19 line) = 19"
    using len by (simp add: list_all2_lengthD[symmetric] del: length_take)
  then have "take 19 s = s"
    using s by simp
  with a s show ?thesis
    using re_match_take[of timestamp_pattern s] by (simp add: len)
qed

lemma backward_steps_Nil: "backward_steps [] = 0"
  by (simp add: backward_steps_def)

lemma backward_steps_single: "backward_steps [a] = 0"
  by (simp add: backward_steps_def)

lemma backward_steps_Cons2:
  "backward_steps (a # b # ts) = (if dt_less b a then 1 else 0) + backward_steps (b # ts)"
  by (simp add: backward_steps_def)

lemma successively_no_backward:
  "successively dt_le ts \<Longrightarrow> backward_steps ts = 0"
proof (induction ts rule: induct_list012)
  case 1
  show ?case by (simp add: backward_steps_Nil)
next
  case (2 x)
  show ?case by (simp add: backward_steps_single)
next
  case (3 x y zs)
  then show ?case
    by (simp add: backward_steps_Cons2 not_dt_less_iff[symmetric])
qed

lemma parsed_timestamps_Nil: "parsed_timestamps [] = []"
  by (simp add: parsed_timestamps_def)

lemma parsed_timestamps_Cons:
  "parsed_timestamps (line # rest) =
     (case parse_line line of None \<Rightarrow> parsed_timestamps rest
      | Some d \<Rightarrow> d # parsed_timestamps rest)"
  by (simp add: parsed_timestamps_def split: option.splits)

lemma parse_line_take: "parse_line line = parse_line (take 19 line)"
proof -
  have "has_leading_timestamp (take 19 line) = has_leading_timestamp line"
    by (simp add: has_leading_timestamp_def timestamp_pattern_def)
  then show ?thesis
    by (simp add: parse_line_def re_match_timestamp)
qed

lemma parsed_timestamps_take:
  assumes "map (take 19) lines = map (take 19) lines'"
  shows "parsed_timestamps lines = parsed_timestamps lines'"
proof -
  have "parsed_timestamps ls = List.map_filter parse_line (map (take 19) ls)" for ls
    by (induction ls)
      (simp_all add: parsed_timestamps_def parse_line_take[symmetric] split: option.splits)
  with assms show ?thesis by simp
qed


lemma process_line_no_timestamp:
  assumes "parse_line line = None"
  shows "errors (process_line st line) = errors st"
    and "last_dt (process_line st line) = last_dt st"
  using assms
  by (simp_all add: process_line_def content_heuristic_id check_timestamp_def parse_line_def
      split: option.splits sum.splits)

lemma process_line_parsed:
  assumes "parse_line line = Some cur"
  shows "last_dt (process_line st line) = Some cur"
    and "errors (process_line st line) =
           errors st + backward_steps (with_last (last_dt st) [cur])"
  using assms
  by (simp_all add: process_line_def content_heuristic_id check_timestamp_def parse_line_def
      with_last_def backward_steps_def Let_def split: option.splits sum.splits)

lemma process_line_violations:
  "length (filter is_violation (out (process_line st line))) + errors st =
     length (filter is_violation (out st)) + errors (process_line st line)"
  by (simp add: process_line_def content_heuristic_id check_timestamp_def Let_def
      split: option.splits sum.splits)



lemma scan_errors:
  "errors (scan st lines) =
     errors st + backward_steps (with_last (last_dt st) (parsed_timestamps lines))"
proof (induction lines arbitrary: st)
  case Nil
  show ?case
    by (cases "last_dt st")
      (simp_all add: parsed_timestamps_Nil with_last_def backward_steps_Nil
        backward_steps_single)
next
  case (Cons line rest)
  show ?case
  proof (cases "parse_line line")
    case None
    then show ?thesis
      by (simp add: Cons.IH process_line_no_timestamp parsed_timestamps_Cons)
  next
    case (Some cur)
    then show ?thesis
      by (cases "last_dt st")
        (simp_all add: Cons.IH process_line_parsed parsed_timestamps_Cons with_last_def
          backward_steps_Cons2 backward_steps_single backward_steps_Nil)
  qed
qed

lemma scan_violations:
  "length (filter is_violation (out (scan st lines))) + errors st =
     length (filter is_violation (out st)) + errors (scan st lines)"
proof (induction lines arbitrary: st)
  case Nil
  show ?case by simp
next
  case (Cons line rest)
  have "length (filter is_violation (out (scan (process_line st line) rest)))
          + errors (process_line st line) =
        length (filter is_violation (out (process_line st line)))
          + errors (scan (process_line st line) rest)"
    by (rule Cons.IH)
  with process_line_violations[of st line] show ?case by simp
qed

lemma scan_no_heuristic_eq: "scan st lines = scan_no_heuristic st lines"
  by (induction lines arbitrary: st)
    (simp_all add: process_line_def process_line_no_heuristic_def content_heuristic_id)


lemma main_existing:
  "os_path_exists env target \<Longrightarrow> main env (prog # target # rest) = check_log_order env target"
  by (simp add: main_def resolve_target_def)


subsection \<open>The scan\<close>

text \<open>
  Claim C1. When the file can be read and each timestamp that parses is greater than or
  equal to the parsed timestamp before it, \<open>check_log_order\<close> counts no violation and
  prints none, its last message is the success message, and it exits with status 0; so
  does the whole program when the path given exists.
\<close>

theorem ordered_file_succeeds:
  assumes "open_text env filename = Inr lines"
    and "successively dt_le (parsed_timestamps lines)"
  shows "errors (scan (init_state filename) lines) = 0
       \<and> filter is_violation (out (scan (init_state filename) lines)) = []
       \<and> check_log_order env filename =
           (out (scan (init_state filename) lines) @ [Success], Exit 0)
       \<and> (os_path_exists env filename \<longrightarrow>
            exit_status (snd (main env (prog # filename # rest))) = 0)"
proof -
  let ?st = "scan (init_state filename) lines"
  have e: "errors ?st = 0"
    using successively_no_backward[OF assms(2)]
    by (simp add: scan_errors init_state_def with_last_def)
  have v: "filter is_violation (out ?st) = []"
    using scan_violations[of "init_state filename" lines] e
    by (simp add: init_state_def)
  have c: "check_log_order env filename = (out ?st @ [Success], Exit 0)"
    using assms(1) e by (simp add: check_log_order_def)
  have m: "os_path_exists env filename \<longrightarrow>
            exit_status (snd (main env (prog # filename # rest))) = 0"
    using c by (simp add: main_existing)
  from e v c m show ?thesis by blast
qed

theorem ordered_file_succeeds_witness:
  "open_text (log_env ''app.log'' ordered_lines) ''app.log'' = Inr ordered_lines
   \<and> successively dt_le (parsed_timestamps ordered_lines)
   \<and> os_path_exists (log_env ''app.log'' ordered_lines) ''app.log''
   \<and> check_log_order (log_env ''app.log'' ordered_lines) ''app.log'' =
        ([Checking ''app.log'', Success], Exit 0)
   \<and> exit_status (snd (main (log_env ''app.log'' ordered_lines)
                           [''verify_logs.py'', ''app.log''])) = 0"
proof -
  let ?env = "log_env ''app.log'' ordered_lines"
  have h1: "open_text ?env ''app.log'' = Inr ordered_lines"
    by (simp add: log_env_def)
  have h2: "successively dt_le (parsed_timestamps ordered_lines)"
    by (simp add: ordered_lines_def eval_defs)
  have h3: "os_path_exists ?env ''app.log''"
    by (simp add: log_env_def os_path_exists_def)
  have o: "out (scan (init_state ''app.log'') ordered_lines) = [Checking ''app.log'']"
    by (simp add: ordered_lines_def eval_defs content_heuristic_id)
  from ordered_file_succeeds[OF h1 h2, of "''verify_logs.py''" "[]"] h1 h2 h3 o
  show ?thesis by simp
qed

text \<open>
  Claim C2. When the file can be read, the final violation count is the number of parsed
  timestamps that are strictly earlier than the parsed timestamp just before them, and
  as many violations are printed; when that number is at least one the run ends with
  the failure summary and exit status 1, also for the whole program when the path given
  exists. On the three lines of the specification's
  example the output is one violation, at line 3 (09:03:10 to 09:03:05), and the exit
  status is 1.
\<close>

theorem violation_count:
  assumes "open_text env filename = Inr lines"
  shows "errors (scan (init_state filename) lines) = backward_steps (parsed_timestamps lines)
       \<and> length (filter is_violation (out (scan (init_state filename) lines))) =
           backward_steps (parsed_timestamps lines)
       \<and> (1 \<le> backward_steps (parsed_timestamps lines) \<longrightarrow>
            check_log_order env filename =
              (out (scan (init_state filename) lines) @
                 [Failed (backward_steps (parsed_timestamps lines))], Exit 1))
       \<and> (1 \<le> backward_steps (parsed_timestamps lines) \<and> os_path_exists env filename \<longrightarrow>
            exit_status (snd (main env (prog # filename # rest))) = 1)
       \<and> check_log_order (log_env ''example.log'' example_lines) ''example.log'' =
           ([Checking ''example.log'',
             TimeWentBackwards 3 (mk_datetime 2025 1 28 9 3 10) (mk_datetime 2025 1 28 9 3 5),
             LineText ''2025-01-28 09:03:05 Thread-3 load test anomaly'',
             Failed 1], Exit 1)"
proof -
  let ?st = "scan (init_state filename) lines"
  let ?k = "backward_steps (parsed_timestamps lines)"
  have e: "errors ?st = ?k"
    by (simp add: scan_errors init_state_def with_last_def)
  have v: "length (filter is_violation (out ?st)) = ?k"
    using scan_violations[of "init_state filename" lines] e
    by (simp add: init_state_def)
  have c: "1 \<le> ?k \<longrightarrow> check_log_order env filename = (out ?st @ [Failed ?k], Exit 1)"
    using assms e by (simp add: check_log_order_def)
  have m: "1 \<le> ?k \<and> os_path_exists env filename \<longrightarrow>
            exit_status (snd (main env (prog # filename # rest))) = 1"
    using c by (simp add: main_existing)
  have x: "check_log_order (log_env ''example.log'' example_lines) ''example.log'' =
           ([Checking ''example.log'',
             TimeWentBackwards 3 (mk_datetime 2025 1 28 9 3 10) (mk_datetime 2025 1 28 9 3 5),
             LineText ''2025-01-28 09:03:05 Thread-3 load test anomaly'',
             Failed 1], Exit 1)"
    by (simp add: example_lines_def eval_defs content_heuristic_id)
  from e v c m x show ?thesis by blast
qed

theorem violation_count_witness:
  "open_text (log_env ''example.log'' example_lines) ''example.log'' = Inr example_lines
   \<and> os_path_exists (log_env ''example.log'' example_lines) ''example.log''
   \<and> backward_steps (parsed_timestamps example_lines) = 1
   \<and> errors (scan (init_state ''example.log'') example_lines) = 1
   \<and> snd (check_log_order (log_env ''example.log'' example_lines) ''example.log'') = Exit 1
   \<and> exit_status (snd (main (log_env ''example.log'' example_lines)
                           [''verify_logs.py'', ''example.log''])) = 1"
proof -
  have h: "open_text (log_env ''example.log'' example_lines) ''example.log'' = Inr example_lines"
    by (simp add: log_env_def)
  have x: "os_path_exists (log_env ''example.log'' example_lines) ''example.log''"
    by (simp add: log_env_def os_path_exists_def)
  have k: "backward_steps (parsed_timestamps example_lines) = 1"
    by (simp add: example_lines_def eval_defs backward_steps_def)
  from violation_count[OF h, of "''verify_logs.py''" "[]"] h x k show ?thesis by simp
qed

text \<open>
  Claim C3. A line that does not begin with a text of the shape \<open>YYYY-MM-DD HH:MM:SS\<close>
  leaves the violation count and the last-seen timestamp as they were: processing it
  only advances the line counter. A line that begins with a white-space character never
  begins with a timestamp.
\<close>

theorem untimestamped_line_frame:
  assumes "\<not> has_leading_timestamp line"
  shows "errors (process_line st line) = errors st
       \<and> last_dt (process_line st line) = last_dt st
       \<and> process_line st line = st\<lparr>line_num := line_num st + 1\<rparr>
       \<and> (\<forall>c rest. is_space c \<longrightarrow> \<not> has_leading_timestamp (c # rest))"
proof -
  have m: "re_match timestamp_pattern line = None"
    using assms by (simp add: re_match_timestamp)
  have p: "process_line st line = st\<lparr>line_num := line_num st + 1\<rparr>"
    by (simp add: process_line_def content_heuristic_id check_timestamp_def m)
  have w: "\<forall>c rest. is_space c \<longrightarrow> \<not> has_leading_timestamp (c # rest)"
    by (auto simp add: has_leading_timestamp_def timestamp_pattern_def is_space_def is_digit_def)
  from p w show ?thesis by simp
qed

theorem untimestamped_line_frame_witness:
  "\<not> has_leading_timestamp '' 2025-01-28 09:03:08 indented''
   \<and> is_space CHR '' ''
   \<and> errors (process_line \<lparr>last_dt = Some (mk_datetime 2025 1 28 9 3 10), line_num = 4,
                             errors = 2, out = []\<rparr> '' 2025-01-28 09:03:08 indented'') = 2
   \<and> last_dt (process_line \<lparr>last_dt = Some (mk_datetime 2025 1 28 9 3 10), line_num = 4,
                             errors = 2, out = []\<rparr> '' 2025-01-28 09:03:08 indented'')
       = Some (mk_datetime 2025 1 28 9 3 10)"
proof -
  have h: "\<not> has_leading_timestamp '' 2025-01-28 09:03:08 indented''"
    by (simp add: has_leading_timestamp_def timestamp_pattern_def is_digit_def)
  have s: "is_space CHR '' ''"
    by (simp add: is_space_def)
  from untimestamped_line_frame[OF h] h s show ?thesis by simp
qed



text \<open>
  Claim C5. After a line whose timestamp parses, the last-seen timestamp is that
  timestamp, whatever it was before and whether or not the line was a violation; the
  next timestamped line is compared with it.
\<close>

theorem baseline_always_updated:
  assumes "parse_line line = Some cur"
  shows "last_dt (process_line st line) = Some cur
       \<and> (parse_line next_line = Some nxt \<longrightarrow>
            errors (process_line (process_line st line) next_line) =
              errors (process_line st line) + (if dt_less nxt cur then 1 else 0))"
proof -
  have a: "last_dt (process_line st line) = Some cur"
    using assms by (rule process_line_parsed(1))
  have b: "parse_line next_line = Some nxt \<longrightarrow>
            errors (process_line (process_line st line) next_line) =
              errors (process_line st line) + (if dt_less nxt cur then 1 else 0)"
    by (simp add: process_line_parsed(2) a with_last_def backward_steps_def)
  from a b show ?thesis by simp
qed

theorem baseline_always_updated_witness:
  "parse_line (''2025-01-28 09:03:05 Thread-3 load test anomaly'' @ nl) =
     Some (mk_datetime 2025 1 28 9 3 5)
   \<and> parse_line (''2025-01-28 09:03:07 Thread-1 load test'' @ nl) =
       Some (mk_datetime 2025 1 28 9 3 7)
   \<and> last_dt (process_line \<lparr>last_dt = Some (mk_datetime 2025 1 28 9 3 10), line_num = 2,
                              errors = 0, out = []\<rparr>
                 (''2025-01-28 09:03:05 Thread-3 load test anomaly'' @ nl))
       = Some (mk_datetime 2025 1 28 9 3 5)
   \<and> errors (process_line
        (process_line \<lparr>last_dt = Some (mk_datetime 2025 1 28 9 3 10), line_num = 2,
                       errors = 0, out = []\<rparr>
           (''2025-01-28 09:03:05 Thread-3 load test anomaly'' @ nl))
        (''2025-01-28 09:03:07 Thread-1 load test'' @ nl)) = 1"
proof -
  let ?st = "\<lparr>last_dt = Some (mk_datetime 2025 1 28 9 3 10), line_num = 2,
              errors = 0, out = []\<rparr>"
  let ?l = "''2025-01-28 09:03:05 Thread-3 load test anomaly'' @ nl"
  let ?n = "''2025-01-28 09:03:07 Thread-1 load test'' @ nl"
  have h1: "parse_line ?l = Some (mk_datetime 2025 1 28 9 3 5)"
    by (simp add: eval_defs)
  have h2: "parse_line ?n = Some (mk_datetime 2025 1 28 9 3 7)"
    by (simp add: eval_defs)
  have e: "errors (process_line ?st ?l) = 1"
    by (simp add: eval_defs content_heuristic_id)
  have n: "\<not> dt_less (mk_datetime 2025 1 28 9 3 7) (mk_datetime 2025 1 28 9 3 5)"
    by (simp add: eval_defs)
  from baseline_always_updated[OF h1, of ?st ?n "mk_datetime 2025 1 28 9 3 7"] h1 h2 e n
  show ?thesis by simp
qed

subsection \<open>The choice of the file\<close>



text \<open>
  Claim C7. With no file argument the program prints the usage message and exits with
  status 1. With a path that does not exist and for which \<open>glob\<close> finds no file named
  \<open>path.*\<close>, it prints the not-found message with that path and exits with status 1.
\<close>

theorem usage_and_not_found:
  "(length argv < 2 \<longrightarrow> main env argv = ([Usage], Exit 1))
   \<and> (\<not> os_path_exists env target \<and> glob env (target @ ''.*'') = [] \<longrightarrow>
        main env (prog # target # rest) = ([CouldNotFind target], Exit 1))"
  by (simp add: main_def resolve_target_def)

theorem usage_and_not_found_witness:
  "length [''verify_logs.py''] < 2
   \<and> main rotated_env [''verify_logs.py''] = ([Usage], Exit 1)
   \<and> \<not> os_path_exists rotated_env ''missing.log''
   \<and> glob rotated_env (''missing.log'' @ ''.*'') = []
   \<and> main rotated_env [''verify_logs.py'', ''missing.log''] =
        ([CouldNotFind ''missing.log''], Exit 1)"
proof -
  have h1: "length [''verify_logs.py''] < 2"
    by simp
  have h2: "\<not> os_path_exists rotated_env ''missing.log''"
    by (simp add: rotated_env_def os_path_exists_def)
  have h3: "glob rotated_env (''missing.log'' @ ''.*'') = []"
    by (simp add: rotated_env_def)
  from usage_and_not_found[of "[''verify_logs.py'']" rotated_env "''missing.log''"
      "''verify_logs.py''" "[]"] h1 h2 h3
  show ?thesis by blast
qed

text \<open>
  Claim C8 says that the path is returned unchanged exactly when it exists as a regular
  file, and that a path which exists without being a regular file falls through to
  prefix matching. The program tests \<open>os.path.exists\<close>, which is true of a directory
  too: the directory \<open>logs\<close> is returned unchanged although \<open>logs.1\<close> matches
  \<open>logs.*\<close>, and the scan then fails to open it.
\<close>

theorem existing_directory_counterexample:
  "os_path_exists dir_env ''logs''
   \<and> \<not> is_regular_file dir_env ''logs''
   \<and> glob dir_env (''logs'' @ ''.*'') = [''logs.1'']
   \<and> resolve_target dir_env ''logs'' = ([], Inr ''logs'')
   \<and> \<not> (resolve_target dir_env ''logs'' = ([], Inr ''logs'') \<longleftrightarrow>
            is_regular_file dir_env ''logs'')
   \<and> main dir_env [''verify_logs.py'', ''logs''] =
        ([Checking ''logs''], Uncaught IsADirectoryError)"
  by (simp add: dir_env_def os_path_exists_def is_regular_file_def resolve_target_def
      main_def check_log_order_def)

text \<open>
  Claim C8, amended. The path is returned unchanged, with nothing printed, exactly when
  it exists, whatever kind of file it is; a regular file is one such case, and the
  program then scans the path given. Only a path that does not exist goes to prefix
  matching.
\<close>

theorem existing_path_unchanged:
  "(resolve_target env P = ([], Inr P) \<longleftrightarrow> os_path_exists env P)
   \<and> (is_regular_file env P \<longrightarrow> resolve_target env P = ([], Inr P))
   \<and> (os_path_exists env P \<longrightarrow> main env (prog # P # rest) = check_log_order env P)
   \<and> (\<not> os_path_exists env P \<longrightarrow>
        resolve_target env P =
          (case glob env (P @ ''.*'') of
             [] \<Rightarrow> ([CouldNotFind P], Inl (Exit 1))
           | c # cs \<Rightarrow>
               (case max_getctime env c cs of
                  Inl e \<Rightarrow> ([], Inl (Uncaught e))
                | Inr t \<Rightarrow> ([Targeting t], Inr t))))"
proof -
  have a: "resolve_target env P = ([], Inr P) \<longleftrightarrow> os_path_exists env P"
    by (simp add: resolve_target_def split: list.splits sum.splits)
  have b: "is_regular_file env P \<longrightarrow> os_path_exists env P"
    by (simp add: is_regular_file_def os_path_exists_def split: sum.splits)
  have c: "os_path_exists env P \<longrightarrow> main env (prog # P # rest) = check_log_order env P"
    by (simp add: main_existing)
  have d: "\<not> os_path_exists env P \<longrightarrow>
        resolve_target env P =
          (case glob env (P @ ''.*'') of
             [] \<Rightarrow> ([CouldNotFind P], Inl (Exit 1))
           | c # cs \<Rightarrow>
               (case max_getctime env c cs of
                  Inl e \<Rightarrow> ([], Inl (Uncaught e))
                | Inr t \<Rightarrow> ([Targeting t], Inr t)))"
    by (simp add: resolve_target_def)
  from a b c d show ?thesis by blast
qed

theorem existing_path_unchanged_witness:
  "os_path_exists dir_env ''logs''
   \<and> resolve_target dir_env ''logs'' = ([], Inr ''logs'')
   \<and> is_regular_file dir_env ''logs.1''
   \<and> resolve_target dir_env ''logs.1'' = ([], Inr ''logs.1'')
   \<and> main dir_env [''verify_logs.py'', ''logs.1''] = check_log_order dir_env ''logs.1''
   \<and> \<not> os_path_exists dir_env ''log''
   \<and> resolve_target dir_env ''log'' = ([CouldNotFind ''log''], Inl (Exit 1))"
proof -
  have h1: "os_path_exists dir_env ''logs''"
    by (simp add: dir_env_def os_path_exists_def)
  have h2: "is_regular_file dir_env ''logs.1''"
    by (simp add: dir_env_def is_regular_file_def)
  have h3: "os_path_exists dir_env ''logs.1''"
    by (simp add: dir_env_def os_path_exists_def)
  have h4: "\<not> os_path_exists dir_env ''log''"
    by (simp add: dir_env_def os_path_exists_def)
  have g: "glob dir_env (''log'' @ ''.*'') = []"
    by (simp add: dir_env_def)
  from existing_path_unchanged[of dir_env "''logs''"] h1
  have a: "resolve_target dir_env ''logs'' = ([], Inr ''logs'')"
    by blast
  from existing_path_unchanged[of dir_env "''logs.1''" "''verify_logs.py''" "[]"] h2 h3
  have b: "resolve_target dir_env ''logs.1'' = ([], Inr ''logs.1'')"
    and c: "main dir_env [''verify_logs.py'', ''logs.1''] = check_log_order dir_env ''logs.1''"
    by blast+
  from existing_path_unchanged[of dir_env "''log''"] h4 g
  have d: "resolve_target dir_env ''log'' = ([CouldNotFind ''log''], Inl (Exit 1))"
    by simp
  from h1 a h2 b c h4 d show ?thesis by blast
qed

subsection \<open>What has no effect\<close>

text \<open>
  Claim C9. The content heuristic changes nothing: each step of the loop, the function
  \<open>check_log_order\<close> and the whole program give the same output and the same exit
  status as the program without that branch. And two files whose lines begin with the same
  nineteen characters, whatever follows them, give the same violation count and the same
  exit status.
\<close>

theorem heuristic_has_no_effect:
  "process_line st line = process_line_no_heuristic st line
   \<and> check_log_order env filename = check_log_order_no_heuristic env filename
   \<and> main env argv = main_no_heuristic env argv
   \<and> (open_text env filename = Inr lines \<and> open_text env' filename' = Inr lines'
        \<and> map (take 19) lines = map (take 19) lines' \<longrightarrow>
        errors (scan (init_state filename) lines) = errors (scan (init_state filename') lines')
        \<and> snd (check_log_order env filename) = snd (check_log_order env' filename'))"
proof -
  have a: "process_line st line = process_line_no_heuristic st line"
    by (simp add: process_line_def process_line_no_heuristic_def content_heuristic_id)
  have b: "check_log_order e f = check_log_order_no_heuristic e f" for e f
    by (simp add: check_log_order_def check_log_order_no_heuristic_def scan_no_heuristic_eq
        split: sum.splits)
  have c: "main env argv = main_no_heuristic env argv"
    by (simp add: main_def main_no_heuristic_def b)
  have d: "open_text env filename = Inr lines \<and> open_text env' filename' = Inr lines'
        \<and> map (take 19) lines = map (take 19) lines' \<longrightarrow>
        errors (scan (init_state filename) lines) = errors (scan (init_state filename') lines')
        \<and> snd (check_log_order env filename) = snd (check_log_order env' filename')"
  proof (intro impI, elim conjE)
    assume o: "open_text env filename = Inr lines" "open_text env' filename' = Inr lines'"
      and t: "map (take 19) lines = map (take 19) lines'"
    have e: "errors (scan (init_state filename) lines) =
             errors (scan (init_state filename') lines')"
      by (simp add: scan_errors init_state_def parsed_timestamps_take[OF t])
    with o show "errors (scan (init_state filename) lines) =
                 errors (scan (init_state filename') lines')
        \<and> snd (check_log_order env filename) = snd (check_log_order env' filename')"
      by (simp add: check_log_order_def Let_def)
  qed
  from a b c d show ?thesis by blast
qed

theorem heuristic_has_no_effect_witness:
  "open_text (log_env ''a.log'' example_lines) ''a.log'' = Inr example_lines
   \<and> open_text (log_env ''b.log'' plain_lines) ''b.log'' = Inr plain_lines
   \<and> map (take 19) example_lines = map (take 19) plain_lines
   \<and> list_all (\<lambda>l. contains ''load test'' l \<and> contains ''Thread'' l) example_lines
   \<and> list_all (\<lambda>l. \<not> contains ''load test'' l \<and> \<not> contains ''Thread'' l) plain_lines
   \<and> errors (scan (init_state ''a.log'') example_lines) =
        errors (scan (init_state ''b.log'') plain_lines)
   \<and> snd (check_log_order (log_env ''a.log'' example_lines) ''a.log'') =
        snd (check_log_order (log_env ''b.log'' plain_lines) ''b.log'')"
proof -
  have h1: "open_text (log_env ''a.log'' example_lines) ''a.log'' = Inr example_lines"
    by (simp add: log_env_def)
  have h2: "open_text (log_env ''b.log'' plain_lines) ''b.log'' = Inr plain_lines"
    by (simp add: log_env_def)
  have h3: "map (take 19) example_lines = map (take 19) plain_lines"
    by (simp add: example_lines_def plain_lines_def)
  have s1: "list_all (\<lambda>l. contains ''load test'' l \<and> contains ''Thread'' l) example_lines"
    by (simp add: example_lines_def)
  have s2: "list_all (\<lambda>l. \<not> contains ''load test'' l \<and> \<not> contains ''Thread'' l) plain_lines"
    by (simp add: plain_lines_def nl_def)
  from heuristic_has_no_effect[of _ _ "log_env ''a.log'' example_lines" "''a.log''" _
      example_lines "log_env ''b.log'' plain_lines" "''b.log''" plain_lines] h1 h2 h3 s1 s2
  show ?thesis by blast
qed

text \<open>
  Claim C10. With at least one argument after the program's name, the run depends on the
  first of them only: the program's name and the arguments after the first change
  neither the output nor the way the run ends.
\<close>

theorem extra_arguments_ignored:
  "main env (prog # target # extra) = main env (prog' # target # extra')"
  by (simp add: main_def)

theorem extra_arguments_ignored_witness:
  "main rotated_env [''verify_logs.py'', ''stress_test_log'', ''--verbose'', ''other.log''] =
   main rotated_env [''verify_logs.py'', ''stress_test_log'']"
  using extra_arguments_ignored[of rotated_env "''verify_logs.py''" "''stress_test_log''"
      "[''--verbose'', ''other.log'']" "''verify_logs.py''" "[]"]
  by simp

end
